theory Spec2Isabelle
  imports Main
begin

section \<open>Data model\<close>

text \<open>
  The OpenID Connect store (package oidc) and the consent handlers (package handlers)
  of the repository, embedded as pure functions. Go's \<open>(value, err)\<close> results are
  pairs of options or sums, the \<open>storage.Provider\<close> interface is a record of
  functions over the state of the database, and every write returns the new state.
\<close>

type_synonym uuid = string
type_synonym time = int

text \<open>
  Go error values. \<open>ErrNoRows\<close> is \<open>sql.ErrNoRows\<close>; \<open>ErrNotFound\<close>, \<open>ErrJTIKnown\<close> and
  \<open>ErrInvalidatedAuthorizeCode\<close> are the errors of package fosite; \<open>ErrOther\<close> is any
  other error value and \<open>ErrWrap msg e\<close> an error that wraps \<open>e\<close>.
\<close>

datatype error =
    ErrNoRows
  | ErrNotFound
  | ErrJTIKnown
  | ErrInvalidatedAuthorizeCode
  | ErrOther string
  | ErrWrap string error

text \<open>\<open>unwrap_chain e t\<close>: \<open>t\<close> is \<open>e\<close> or one of the errors \<open>e\<close> wraps.\<close>

fun unwrap_chain :: "error \<Rightarrow> error \<Rightarrow> bool" where
  "unwrap_chain (ErrWrap m e) t = (ErrWrap m e = t \<or> unwrap_chain e t)"
| "unwrap_chain e t = (e = t)"

text \<open>
  \<open>errors.Is(err, target)\<close> of the Go standard library, on possibly nil errors: when
  either side is nil the result is \<open>err == target\<close>, otherwise the chain of \<open>err\<close> is
  searched for \<open>target\<close>.
\<close>

fun errors_Is :: "error option \<Rightarrow> error option \<Rightarrow> bool" where
  "errors_Is None t = (t = None)"
| "errors_Is (Some e) None = False"
| "errors_Is (Some e) (Some t) = unwrap_chain e t"

text \<open>
  Modelled from the spec: the authentication and policy level, whose declaration
  (package authorization) is not among the sources. The spec gives it as the ordered
  enum none < one-factor < two-factor.
\<close>

datatype Level = Bypass | OneFactor | TwoFactor

fun level_rank :: "Level \<Rightarrow> nat" where
  "level_rank Bypass = 0"
| "level_rank OneFactor = 1"
| "level_rank TwoFactor = 2"

datatype OAuth2SessionType =
    OAuth2SessionTypeAuthorizeCode
  | OAuth2SessionTypeAccessToken
  | OAuth2SessionTypeRefreshToken
  | OAuth2SessionTypePKCEChallenge
  | OAuth2SessionTypeOpenIDConnect

text \<open>
  Modelled from the spec: the rows of package model, whose declarations are not among the
  sources; the fields are the attributes of section 3 of the spec that the code reads.
\<close>

record Client =
  client_ID :: string
  Policy :: Level

record UserOpaqueIdentifier =
  Service :: string
  SectorID :: string
  Username :: string
  Identifier :: uuid

record OAuth2BlacklistedJTI =
  jti_Signature :: string
  ExpiresAt :: time

record OAuth2Session =
  Signature :: string
  RequestID :: string
  session_ClientID :: string
  session_Subject :: string
  session_Form :: string
  Active :: bool
  Revoked :: bool

datatype Decision = Pending | Granted | Denied

record OAuth2ConsentSession =
  ChallengeID :: uuid
  ClientID :: string
  Subject :: string
  RequestedScopes :: "string list"
  RequestedAudience :: "string list"
  GrantedScopes :: "string list"
  GrantedAudience :: "string list"
  Authorized :: Decision
  Form :: string

text \<open>
  The interface \<open>storage.Provider\<close>, as far as the store and the consent handlers call it.
  A read returns what Go returns; a write returns the new state of the database and the
  error, nil being \<open>None\<close>.
\<close>

record 'db Provider =
  LoadUserOpaqueIdentifierBySignature ::
    "'db \<Rightarrow> string \<Rightarrow> string \<Rightarrow> string \<Rightarrow> UserOpaqueIdentifier option \<times> error option"
  SaveUserOpaqueIdentifier :: "'db \<Rightarrow> UserOpaqueIdentifier \<Rightarrow> 'db \<times> error option"
  LoadOAuth2BlacklistedJTI :: "'db \<Rightarrow> string \<Rightarrow> error + OAuth2BlacklistedJTI"
  SaveOAuth2BlacklistedJTI :: "'db \<Rightarrow> OAuth2BlacklistedJTI \<Rightarrow> 'db \<times> error option"
  LoadOAuth2Session :: "'db \<Rightarrow> OAuth2SessionType \<Rightarrow> string \<Rightarrow> error + OAuth2Session"
  SaveOAuth2Session :: "'db \<Rightarrow> OAuth2SessionType \<Rightarrow> OAuth2Session \<Rightarrow> 'db \<times> error option"
  RevokeOAuth2Session :: "'db \<Rightarrow> OAuth2SessionType \<Rightarrow> string \<Rightarrow> 'db \<times> error option"
  RevokeOAuth2SessionByRequestID :: "'db \<Rightarrow> OAuth2SessionType \<Rightarrow> string \<Rightarrow> 'db \<times> error option"
  DeactivateOAuth2Session :: "'db \<Rightarrow> OAuth2SessionType \<Rightarrow> string \<Rightarrow> 'db \<times> error option"
  DeactivateOAuth2SessionByRequestID ::
    "'db \<Rightarrow> OAuth2SessionType \<Rightarrow> string \<Rightarrow> 'db \<times> error option"
  LoadOAuth2ConsentSessionByChallengeID :: "'db \<Rightarrow> uuid \<Rightarrow> error + OAuth2ConsentSession"
  SaveOAuth2ConsentSessionResponse ::
    "'db \<Rightarrow> OAuth2ConsentSession \<Rightarrow> bool \<Rightarrow> 'db \<times> error option"

record 'db OpenIDConnectStore =
  provider :: "'db Provider"
  clients :: "string \<rightharpoonup> Client"

section \<open>The store (package oidc)\<close>

text \<open>
  \<open>NewUserOpaqueIdentifier\<close> (package model, random UUID generation) is a parameter: what
  it returns for the triple, an identifier or an error.
\<close>

definition GenerateOpaqueUserID ::
  "(string \<Rightarrow> string \<Rightarrow> string \<Rightarrow> error + UserOpaqueIdentifier) \<Rightarrow> 'db OpenIDConnectStore \<Rightarrow> 'db
     \<Rightarrow> string \<Rightarrow> string \<Rightarrow> (UserOpaqueIdentifier option \<times> error option) \<times> 'db" where
  "GenerateOpaqueUserID NewUserOpaqueIdentifier s db sectorID username =
     (case LoadUserOpaqueIdentifierBySignature (provider s) db ''openid'' sectorID username of
        (opaqueID, Some err) \<Rightarrow> ((opaqueID, Some err), db)
      | (Some opaqueID, None) \<Rightarrow> ((Some opaqueID, None), db)
      | (None, None) \<Rightarrow>
          (case NewUserOpaqueIdentifier ''openid'' sectorID username of
             Inl err \<Rightarrow> ((None, Some err), db)
           | Inr opaqueID \<Rightarrow>
               (case SaveUserOpaqueIdentifier (provider s) db opaqueID of
                  (db', Some err) \<Rightarrow> ((Some opaqueID, Some err), db')
                | (db', None) \<Rightarrow> ((Some opaqueID, None), db'))))"

text \<open>
  \<open>GenerateOpaqueUserID\<close> returns a nil identifier only together with an error, so the
  last case below, where Go would dereference nil, is never taken.
\<close>

definition GetSubject ::
  "(string \<Rightarrow> string \<Rightarrow> string \<Rightarrow> error + UserOpaqueIdentifier) \<Rightarrow> 'db OpenIDConnectStore \<Rightarrow> 'db
     \<Rightarrow> string \<Rightarrow> string \<Rightarrow> (error + uuid) \<times> 'db" where
  "GetSubject NewUserOpaqueIdentifier s db sectorID username =
     (case GenerateOpaqueUserID NewUserOpaqueIdentifier s db sectorID username of
        ((_, Some err), db') \<Rightarrow> (Inl err, db')
      | ((Some opaqueID, None), db') \<Rightarrow> (Inr (Identifier opaqueID), db')
      | ((None, None), db') \<Rightarrow> (Inl (ErrOther ''nil pointer dereference''), db'))"

definition GetFullClient :: "'db OpenIDConnectStore \<Rightarrow> string \<Rightarrow> error + Client" where
  "GetFullClient s cid = (case clients s cid of None \<Rightarrow> Inl ErrNotFound | Some client \<Rightarrow> Inr client)"

definition GetClientPolicy :: "'db OpenIDConnectStore \<Rightarrow> string \<Rightarrow> Level" where
  "GetClientPolicy s cid =
     (case GetFullClient s cid of Inl err \<Rightarrow> TwoFactor | Inr client \<Rightarrow> Policy client)"

definition IsValidClientID :: "'db OpenIDConnectStore \<Rightarrow> string \<Rightarrow> bool" where
  "IsValidClientID s cid = (case GetFullClient s cid of Inl err \<Rightarrow> False | Inr client \<Rightarrow> True)"

text \<open>
  \<open>Sum256\<close> stands for \<open>fmt.Sprintf("%x", sha256.Sum256([]byte(jti)))\<close> of the standard
  library and \<open>now\<close> for \<open>time.Now()\<close>. The first case of the switch is
  \<open>errors.Is(sql.ErrNoRows, err)\<close>, with the arguments in this order.
\<close>

definition ClientAssertionJWTValid ::
  "(string \<Rightarrow> string) \<Rightarrow> 'db OpenIDConnectStore \<Rightarrow> 'db \<Rightarrow> time \<Rightarrow> string \<Rightarrow> error option" where
  "ClientAssertionJWTValid Sum256 s db now jti =
     (let signature = Sum256 jti in
      case LoadOAuth2BlacklistedJTI (provider s) db signature of
        Inl err \<Rightarrow> if errors_Is (Some ErrNoRows) (Some err) then None else Some err
      | Inr blacklistedJTI \<Rightarrow>
          if errors_Is (Some ErrNoRows) None then None
          else if ExpiresAt blacklistedJTI > now then Some ErrJTIKnown
          else None)"

definition IsJWTUsed ::
  "(string \<Rightarrow> string) \<Rightarrow> 'db OpenIDConnectStore \<Rightarrow> 'db \<Rightarrow> time \<Rightarrow> string \<Rightarrow> bool \<times> error option" where
  "IsJWTUsed Sum256 s db now jti =
     (case ClientAssertionJWTValid Sum256 s db now jti of
        Some err \<Rightarrow> (True, Some err)
      | None \<Rightarrow> (False, None))"

text \<open>
  \<open>ToRequest\<close> (package model) hydrates a stored row into the request it was saved from,
  and \<open>NewOAuth2SessionFromRequest\<close> builds the row; both are parameters. \<open>'q\<close> is
  \<open>fosite.Requester\<close> and \<open>'f\<close> is \<open>fosite.Session\<close>.
\<close>

definition loadSessionBySignature ::
  "(OAuth2Session \<Rightarrow> 'f \<Rightarrow> error + 'q) \<Rightarrow> 'db OpenIDConnectStore \<Rightarrow> 'db \<Rightarrow> OAuth2SessionType
     \<Rightarrow> string \<Rightarrow> 'f \<Rightarrow> 'q option \<times> error option" where
  "loadSessionBySignature ToRequest s db sessionType signature session =
     (case LoadOAuth2Session (provider s) db sessionType signature of
        Inl err \<Rightarrow>
          if errors_Is (Some err) (Some ErrNoRows) then (None, Some ErrNotFound)
          else (None, Some err)
      | Inr sessionModel \<Rightarrow>
          (case ToRequest sessionModel session of
             Inl err \<Rightarrow> (None, Some err)
           | Inr r \<Rightarrow>
               if \<not> Active sessionModel \<and> sessionType = OAuth2SessionTypeAuthorizeCode
               then (Some r, Some ErrInvalidatedAuthorizeCode)
               else (Some r, None)))"

definition saveSession ::
  "(string \<Rightarrow> 'q \<Rightarrow> error + OAuth2Session) \<Rightarrow> 'db OpenIDConnectStore \<Rightarrow> 'db \<Rightarrow> OAuth2SessionType
     \<Rightarrow> string \<Rightarrow> 'q \<Rightarrow> 'db \<times> error option" where
  "saveSession NewOAuth2SessionFromRequest s db sessionType signature r =
     (case NewOAuth2SessionFromRequest signature r of
        Inl err \<Rightarrow> (db, Some err)
      | Inr session \<Rightarrow> SaveOAuth2Session (provider s) db sessionType session)"

definition revokeSessionBySignature ::
  "'db OpenIDConnectStore \<Rightarrow> 'db \<Rightarrow> OAuth2SessionType \<Rightarrow> string \<Rightarrow> 'db \<times> error option" where
  "revokeSessionBySignature s db sessionType signature =
     RevokeOAuth2Session (provider s) db sessionType signature"

definition revokeSessionByRequestID ::
  "'db OpenIDConnectStore \<Rightarrow> 'db \<Rightarrow> OAuth2SessionType \<Rightarrow> string \<Rightarrow> 'db \<times> error option" where
  "revokeSessionByRequestID s db sessionType requestID =
     (case RevokeOAuth2SessionByRequestID (provider s) db sessionType requestID of
        (db', Some err) \<Rightarrow>
          if errors_Is (Some err) (Some ErrNoRows) then (db', Some ErrNotFound)
          else (db', Some err)
      | (db', None) \<Rightarrow> (db', None))"

definition CreateAuthorizeCodeSession ::
  "(string \<Rightarrow> 'q \<Rightarrow> error + OAuth2Session) \<Rightarrow> 'db OpenIDConnectStore \<Rightarrow> 'db \<Rightarrow> string \<Rightarrow> 'q
     \<Rightarrow> 'db \<times> error option" where
  "CreateAuthorizeCodeSession NewOAuth2SessionFromRequest s db code request =
     saveSession NewOAuth2SessionFromRequest s db OAuth2SessionTypeAuthorizeCode code request"

definition InvalidateAuthorizeCodeSession ::
  "'db OpenIDConnectStore \<Rightarrow> 'db \<Rightarrow> string \<Rightarrow> 'db \<times> error option" where
  "InvalidateAuthorizeCodeSession s db code =
     DeactivateOAuth2Session (provider s) db OAuth2SessionTypeAuthorizeCode code"

definition GetAuthorizeCodeSession ::
  "(OAuth2Session \<Rightarrow> 'f \<Rightarrow> error + 'q) \<Rightarrow> 'db OpenIDConnectStore \<Rightarrow> 'db \<Rightarrow> string \<Rightarrow> 'f
     \<Rightarrow> 'q option \<times> error option" where
  "GetAuthorizeCodeSession ToRequest s db code session =
     loadSessionBySignature ToRequest s db OAuth2SessionTypeAuthorizeCode code session"

definition DeleteAccessTokenSession ::
  "'db OpenIDConnectStore \<Rightarrow> 'db \<Rightarrow> string \<Rightarrow> 'db \<times> error option" where
  "DeleteAccessTokenSession s db signature =
     revokeSessionBySignature s db OAuth2SessionTypeAccessToken signature"

definition RevokeAccessToken ::
  "'db OpenIDConnectStore \<Rightarrow> 'db \<Rightarrow> string \<Rightarrow> 'db \<times> error option" where
  "RevokeAccessToken s db requestID =
     revokeSessionByRequestID s db OAuth2SessionTypeAccessToken requestID"

definition GetAccessTokenSession ::
  "(OAuth2Session \<Rightarrow> 'f \<Rightarrow> error + 'q) \<Rightarrow> 'db OpenIDConnectStore \<Rightarrow> 'db \<Rightarrow> string \<Rightarrow> 'f
     \<Rightarrow> 'q option \<times> error option" where
  "GetAccessTokenSession ToRequest s db signature session =
     loadSessionBySignature ToRequest s db OAuth2SessionTypeAccessToken signature session"

definition DeleteRefreshTokenSession ::
  "'db OpenIDConnectStore \<Rightarrow> 'db \<Rightarrow> string \<Rightarrow> 'db \<times> error option" where
  "DeleteRefreshTokenSession s db signature =
     revokeSessionBySignature s db OAuth2SessionTypeRefreshToken signature"

definition RevokeRefreshToken ::
  "'db OpenIDConnectStore \<Rightarrow> 'db \<Rightarrow> string \<Rightarrow> 'db \<times> error option" where
  "RevokeRefreshToken s db requestID =
     DeactivateOAuth2SessionByRequestID (provider s) db OAuth2SessionTypeRefreshToken requestID"

definition RevokeRefreshTokenMaybeGracePeriod ::
  "'db OpenIDConnectStore \<Rightarrow> 'db \<Rightarrow> string \<Rightarrow> string \<Rightarrow> 'db \<times> error option" where
  "RevokeRefreshTokenMaybeGracePeriod s db requestID signature = RevokeRefreshToken s db requestID"

definition GetRefreshTokenSession ::
  "(OAuth2Session \<Rightarrow> 'f \<Rightarrow> error + 'q) \<Rightarrow> 'db OpenIDConnectStore \<Rightarrow> 'db \<Rightarrow> string \<Rightarrow> 'f
     \<Rightarrow> 'q option \<times> error option" where
  "GetRefreshTokenSession ToRequest s db signature session =
     loadSessionBySignature ToRequest s db OAuth2SessionTypeRefreshToken signature session"

definition CreatePKCERequestSession ::
  "(string \<Rightarrow> 'q \<Rightarrow> error + OAuth2Session) \<Rightarrow> 'db OpenIDConnectStore \<Rightarrow> 'db \<Rightarrow> string \<Rightarrow> 'q
     \<Rightarrow> 'db \<times> error option" where
  "CreatePKCERequestSession NewOAuth2SessionFromRequest s db signature request =
     saveSession NewOAuth2SessionFromRequest s db OAuth2SessionTypePKCEChallenge signature request"

definition DeletePKCERequestSession ::
  "'db OpenIDConnectStore \<Rightarrow> 'db \<Rightarrow> string \<Rightarrow> 'db \<times> error option" where
  "DeletePKCERequestSession s db signature =
     revokeSessionBySignature s db OAuth2SessionTypeAccessToken signature"

definition GetPKCERequestSession ::
  "(OAuth2Session \<Rightarrow> 'f \<Rightarrow> error + 'q) \<Rightarrow> 'db OpenIDConnectStore \<Rightarrow> 'db \<Rightarrow> string \<Rightarrow> 'f
     \<Rightarrow> 'q option \<times> error option" where
  "GetPKCERequestSession ToRequest s db signature session =
     loadSessionBySignature ToRequest s db OAuth2SessionTypePKCEChallenge signature session"

definition CreateOpenIDConnectSession ::
  "(string \<Rightarrow> 'q \<Rightarrow> error + OAuth2Session) \<Rightarrow> 'db OpenIDConnectStore \<Rightarrow> 'db \<Rightarrow> string \<Rightarrow> 'q
     \<Rightarrow> 'db \<times> error option" where
  "CreateOpenIDConnectSession NewOAuth2SessionFromRequest s db authorizeCode request =
     saveSession NewOAuth2SessionFromRequest s db OAuth2SessionTypeOpenIDConnect authorizeCode request"

definition DeleteOpenIDConnectSession ::
  "'db OpenIDConnectStore \<Rightarrow> 'db \<Rightarrow> string \<Rightarrow> 'db \<times> error option" where
  "DeleteOpenIDConnectSession s db authorizeCode =
     revokeSessionBySignature s db OAuth2SessionTypeAccessToken authorizeCode"

section \<open>The consent handlers (package handlers)\<close>

text \<open>
  The request body and the user session are declared outside the sources; these are the
  fields the handlers read.
\<close>

record ConsentPostRequestBody =
  body_ClientID :: string
  AcceptOrReject :: string

record UserSession =
  session_Username :: string
  AuthenticationLevel :: Level
  ConsentChallengeID :: "uuid option"

text \<open>\<open>url.Values\<close>: the parsed form of the original authorization request.\<close>

type_synonym Values = "(string \<times> string list) list"

text \<open>
  What a handler leaves in the response: \<open>ctx.ReplyForbidden()\<close>, \<open>ctx.ReplyBadRequest()\<close>,
  \<open>ctx.SetJSONError(message)\<close>, \<open>ctx.Error(err, message)\<close>, or the JSON body
  \<open>ConsentPostResponseBody{RedirectURI: ...}\<close>.
\<close>

datatype Response =
    ReplyForbidden
  | ReplyBadRequest
  | JSONError string
  | ReplyError string
  | ConsentPostResponseBody string

text \<open>
  What the handler reads from \<open>middlewares.AutheliaCtx\<close>: the outcome of
  \<open>json.Unmarshal(ctx.Request.Body(), &body)\<close>, the user session, the two providers, the
  outcome of \<open>ctx.ExternalRootURL()\<close> and the outcome of \<open>ctx.SetJSONBody\<close> on a redirect
  URI.
\<close>

record 'db AutheliaCtx =
  RequestBody :: "error + ConsentPostRequestBody"
  GetSession :: UserSession
  StorageProvider :: "'db Provider"
  Store :: "'db OpenIDConnectStore"
  ExternalRootURL :: "error + string"
  SetJSONBody :: "string \<Rightarrow> error option"

text \<open>
  Constants and library functions the handler uses whose declarations are not among the
  sources, taken as parameters: the constants \<open>messageOperationFailed\<close> and
  \<open>oidc.AuthorizationPath\<close>, the method \<open>consent.GetForm()\<close> and \<open>url.Values.Encode\<close>.
\<close>

record handlers_env =
  messageOperationFailed :: string
  AuthorizationPath :: string
  GetForm :: "OAuth2ConsentSession \<Rightarrow> error + Values"
  Encode :: "Values \<Rightarrow> string"

text \<open>
  Modelled from the spec: the verbs of the consent decision, constants of package
  handlers that are not among the sources (\<open>verb \<in> {accept, reject}\<close>).
\<close>

definition accept :: string where
  "accept = ''accept''"

definition reject :: string where
  "reject = ''reject''"

text \<open>
  Modelled from the spec: \<open>client.IsAuthenticationLevelSufficient\<close> (package oidc, not among
  the sources): the level is insufficient when it is below the client's required policy
  level.
\<close>

definition IsAuthenticationLevelSufficient :: "Client \<Rightarrow> Level \<Rightarrow> bool" where
  "IsAuthenticationLevelSufficient client level = (level_rank (Policy client) \<le> level_rank level)"

text \<open>
  Modelled from the spec: \<open>utils.IsStringInSlice\<close> (package utils, not among the sources):
  whether the string is present in the slice.
\<close>

fun IsStringInSlice :: "string \<Rightarrow> string list \<Rightarrow> bool" where
  "IsStringInSlice needle [] = False"
| "IsStringInSlice needle (b # haystack) = (if b = needle then True else IsStringInSlice needle haystack)"

definition oidcConsentGetSessionsAndClient ::
  "'db AutheliaCtx \<Rightarrow> 'db \<Rightarrow> Response + (UserSession \<times> OAuth2ConsentSession \<times> Client)" where
  "oidcConsentGetSessionsAndClient ctx db =
     (let userSession = GetSession ctx in
      case ConsentChallengeID userSession of
        None \<Rightarrow> Inl ReplyForbidden
      | Some challengeID \<Rightarrow>
          (case LoadOAuth2ConsentSessionByChallengeID (StorageProvider ctx) db challengeID of
             Inl err \<Rightarrow> Inl ReplyForbidden
           | Inr consent \<Rightarrow>
               (case GetFullClient (Store ctx) (ClientID consent) of
                  Inl err \<Rightarrow> Inl ReplyForbidden
                | Inr client \<Rightarrow> Inr (userSession, consent, client))))"

text \<open>
  The statements of \<open>oidcConsentPOST\<close> after its switch: the decision is saved and the
  redirect URI \<open>fmt.Sprintf("%s%s?%s", externalRootURL, oidc.AuthorizationPath, form.Encode())\<close>
  is answered. The result is the response, the consent session as the handler holds it,
  and the database.
\<close>

definition oidcConsentPOST_save ::
  "handlers_env \<Rightarrow> 'db AutheliaCtx \<Rightarrow> 'db \<Rightarrow> OAuth2ConsentSession \<Rightarrow> bool \<Rightarrow> string \<Rightarrow> Values
     \<Rightarrow> Response \<times> OAuth2ConsentSession option \<times> 'db" where
  "oidcConsentPOST_save env ctx db consent authorized externalRootURL form =
     (case SaveOAuth2ConsentSessionResponse (StorageProvider ctx) db consent authorized of
        (db', Some err) \<Rightarrow> (JSONError (messageOperationFailed env), Some consent, db')
      | (db', None) \<Rightarrow>
          (let redirectURI = externalRootURL @ AuthorizationPath env @ ''?'' @ Encode env form in
           case SetJSONBody ctx redirectURI of
             Some err \<Rightarrow> (ReplyError ''Operation failed'', Some consent, db')
           | None \<Rightarrow> (ConsentPostResponseBody redirectURI, Some consent, db')))"

text \<open>
  The decision handler (POST). \<open>externalRootURL\<close> is declared before the switch with
  Go's zero value, the empty string, and assigned in the accept case only.
\<close>

definition oidcConsentPOST ::
  "handlers_env \<Rightarrow> 'db AutheliaCtx \<Rightarrow> 'db \<Rightarrow> Response \<times> OAuth2ConsentSession option \<times> 'db" where
  "oidcConsentPOST env ctx db =
     (case RequestBody ctx of
        Inl err \<Rightarrow> (JSONError (messageOperationFailed env), None, db)
      | Inr body \<Rightarrow>
          (case oidcConsentGetSessionsAndClient ctx db of
             Inl reply \<Rightarrow> (reply, None, db)
           | Inr (userSession, consent, client) \<Rightarrow>
               if \<not> IsAuthenticationLevelSufficient client (AuthenticationLevel userSession)
               then (ReplyForbidden, Some consent, db)
               else if ClientID consent \<noteq> body_ClientID body
               then (JSONError (messageOperationFailed env), Some consent, db)
               else
                 (case GetForm env consent of
                    Inl err \<Rightarrow> (JSONError (messageOperationFailed env), Some consent, db)
                  | Inr form \<Rightarrow>
                      if AcceptOrReject body = accept then
                        (case ExternalRootURL ctx of
                           Inl err \<Rightarrow> (JSONError (messageOperationFailed env), Some consent, db)
                         | Inr externalRootURL \<Rightarrow>
                             (let consent1 = consent\<lparr>GrantedScopes := RequestedScopes consent\<rparr>;
                                  consent2 = consent1\<lparr>GrantedAudience := RequestedAudience consent1\<rparr>;
                                  consent3 =
                                    (if \<not> IsStringInSlice (ClientID consent2) (GrantedAudience consent2)
                                     then consent2\<lparr>GrantedAudience :=
                                            GrantedAudience consent2 @ [ClientID consent2]\<rparr>
                                     else consent2)
                              in oidcConsentPOST_save env ctx db consent3 True externalRootURL form))
                      else if AcceptOrReject body = reject then
                        oidcConsentPOST_save env ctx db consent False [] form
                      else (ReplyBadRequest, Some consent, db))))"

section \<open>An in-memory storage provider\<close>

text \<open>
  Modelled from the spec: a storage provider (package storage is not among the sources),
  as tables of rows. A session row is keyed by kind and signature; saving an existing key
  is a conflict; a read of an absent row is \<open>sql.ErrNoRows\<close>; deactivating clears the
  active flag and keeps the row; a revoked row is kept and is reported as absent; the
  operations by request ID report \<open>sql.ErrNoRows\<close> when no row matched; the
  consent-response save writes the decision and the granted scopes and audience into the
  row of the challenge.
\<close>

record memdb =
  opaque_identifiers :: "UserOpaqueIdentifier list"
  blacklisted_jtis :: "OAuth2BlacklistedJTI list"
  sessions :: "(OAuth2SessionType \<times> OAuth2Session) list"
  consent_sessions :: "OAuth2ConsentSession list"

definition same_triple :: "string \<Rightarrow> string \<Rightarrow> string \<Rightarrow> UserOpaqueIdentifier \<Rightarrow> bool" where
  "same_triple service sectorID username r =
     (Service r = service \<and> SectorID r = sectorID \<and> Username r = username)"

definition mem_LoadUserOpaqueIdentifierBySignature ::
  "memdb \<Rightarrow> string \<Rightarrow> string \<Rightarrow> string \<Rightarrow> UserOpaqueIdentifier option \<times> error option" where
  "mem_LoadUserOpaqueIdentifierBySignature db service sectorID username =
     (find (same_triple service sectorID username) (opaque_identifiers db), None)"

definition mem_SaveUserOpaqueIdentifier ::
  "memdb \<Rightarrow> UserOpaqueIdentifier \<Rightarrow> memdb \<times> error option" where
  "mem_SaveUserOpaqueIdentifier db r =
     (case find (same_triple (Service r) (SectorID r) (Username r)) (opaque_identifiers db) of
        Some _ \<Rightarrow> (db, Some (ErrOther ''UNIQUE constraint failed''))
      | None \<Rightarrow> (db\<lparr>opaque_identifiers := opaque_identifiers db @ [r]\<rparr>, None))"

definition mem_LoadOAuth2BlacklistedJTI :: "memdb \<Rightarrow> string \<Rightarrow> error + OAuth2BlacklistedJTI" where
  "mem_LoadOAuth2BlacklistedJTI db signature =
     (case find (\<lambda>r. jti_Signature r = signature) (blacklisted_jtis db) of
        None \<Rightarrow> Inl ErrNoRows
      | Some r \<Rightarrow> Inr r)"

definition mem_SaveOAuth2BlacklistedJTI ::
  "memdb \<Rightarrow> OAuth2BlacklistedJTI \<Rightarrow> memdb \<times> error option" where
  "mem_SaveOAuth2BlacklistedJTI db r =
     (db\<lparr>blacklisted_jtis :=
          r # filter (\<lambda>x. jti_Signature x \<noteq> jti_Signature r) (blacklisted_jtis db)\<rparr>, None)"

definition session_key :: "OAuth2SessionType \<Rightarrow> string \<Rightarrow> OAuth2SessionType \<times> OAuth2Session \<Rightarrow> bool" where
  "session_key sessionType signature row = (fst row = sessionType \<and> Signature (snd row) = signature)"

definition session_request :: "OAuth2SessionType \<Rightarrow> string \<Rightarrow> OAuth2SessionType \<times> OAuth2Session \<Rightarrow> bool" where
  "session_request sessionType requestID row = (fst row = sessionType \<and> RequestID (snd row) = requestID)"

definition mem_LoadOAuth2Session :: "memdb \<Rightarrow> OAuth2SessionType \<Rightarrow> string \<Rightarrow> error + OAuth2Session" where
  "mem_LoadOAuth2Session db sessionType signature =
     (case find (\<lambda>row. session_key sessionType signature row \<and> \<not> Revoked (snd row)) (sessions db) of
        None \<Rightarrow> Inl ErrNoRows
      | Some row \<Rightarrow> Inr (snd row))"

definition mem_SaveOAuth2Session ::
  "memdb \<Rightarrow> OAuth2SessionType \<Rightarrow> OAuth2Session \<Rightarrow> memdb \<times> error option" where
  "mem_SaveOAuth2Session db sessionType r =
     (case find (session_key sessionType (Signature r)) (sessions db) of
        Some _ \<Rightarrow> (db, Some (ErrOther ''UNIQUE constraint failed''))
      | None \<Rightarrow> (db\<lparr>sessions := sessions db @ [(sessionType, r)]\<rparr>, None))"

definition mem_RevokeOAuth2Session ::
  "memdb \<Rightarrow> OAuth2SessionType \<Rightarrow> string \<Rightarrow> memdb \<times> error option" where
  "mem_RevokeOAuth2Session db sessionType signature =
     (db\<lparr>sessions :=
          map (\<lambda>row. if session_key sessionType signature row
                     then (fst row, (snd row)\<lparr>Revoked := True\<rparr>) else row) (sessions db)\<rparr>, None)"

definition mem_RevokeOAuth2SessionByRequestID ::
  "memdb \<Rightarrow> OAuth2SessionType \<Rightarrow> string \<Rightarrow> memdb \<times> error option" where
  "mem_RevokeOAuth2SessionByRequestID db sessionType requestID =
     (if list_ex (session_request sessionType requestID) (sessions db)
      then (db\<lparr>sessions :=
                map (\<lambda>row. if session_request sessionType requestID row
                           then (fst row, (snd row)\<lparr>Revoked := True\<rparr>) else row) (sessions db)\<rparr>, None)
      else (db, Some ErrNoRows))"

definition mem_DeactivateOAuth2Session ::
  "memdb \<Rightarrow> OAuth2SessionType \<Rightarrow> string \<Rightarrow> memdb \<times> error option" where
  "mem_DeactivateOAuth2Session db sessionType signature =
     (db\<lparr>sessions :=
          map (\<lambda>row. if session_key sessionType signature row
                     then (fst row, (snd row)\<lparr>Active := False\<rparr>) else row) (sessions db)\<rparr>, None)"

definition mem_DeactivateOAuth2SessionByRequestID ::
  "memdb \<Rightarrow> OAuth2SessionType \<Rightarrow> string \<Rightarrow> memdb \<times> error option" where
  "mem_DeactivateOAuth2SessionByRequestID db sessionType requestID =
     (if list_ex (session_request sessionType requestID) (sessions db)
      then (db\<lparr>sessions :=
                map (\<lambda>row. if session_request sessionType requestID row
                           then (fst row, (snd row)\<lparr>Active := False\<rparr>) else row) (sessions db)\<rparr>, None)
      else (db, Some ErrNoRows))"

definition mem_LoadOAuth2ConsentSessionByChallengeID ::
  "memdb \<Rightarrow> uuid \<Rightarrow> error + OAuth2ConsentSession" where
  "mem_LoadOAuth2ConsentSessionByChallengeID db challengeID =
     (case find (\<lambda>r. ChallengeID r = challengeID) (consent_sessions db) of
        None \<Rightarrow> Inl ErrNoRows
      | Some r \<Rightarrow> Inr r)"

definition mem_SaveOAuth2ConsentSessionResponse ::
  "memdb \<Rightarrow> OAuth2ConsentSession \<Rightarrow> bool \<Rightarrow> memdb \<times> error option" where
  "mem_SaveOAuth2ConsentSessionResponse db consent authorized =
     (db\<lparr>consent_sessions :=
          map (\<lambda>r. if ChallengeID r = ChallengeID consent
                   then r\<lparr>Authorized := (if authorized then Granted else Denied),
                          GrantedScopes := GrantedScopes consent,
                          GrantedAudience := GrantedAudience consent\<rparr>
                   else r) (consent_sessions db)\<rparr>, None)"

definition mem_provider :: "memdb Provider" where
  "mem_provider =
     \<lparr>LoadUserOpaqueIdentifierBySignature = mem_LoadUserOpaqueIdentifierBySignature,
      SaveUserOpaqueIdentifier = mem_SaveUserOpaqueIdentifier,
      LoadOAuth2BlacklistedJTI = mem_LoadOAuth2BlacklistedJTI,
      SaveOAuth2BlacklistedJTI = mem_SaveOAuth2BlacklistedJTI,
      LoadOAuth2Session = mem_LoadOAuth2Session,
      SaveOAuth2Session = mem_SaveOAuth2Session,
      RevokeOAuth2Session = mem_RevokeOAuth2Session,
      RevokeOAuth2SessionByRequestID = mem_RevokeOAuth2SessionByRequestID,
      DeactivateOAuth2Session = mem_DeactivateOAuth2Session,
      DeactivateOAuth2SessionByRequestID = mem_DeactivateOAuth2SessionByRequestID,
      LoadOAuth2ConsentSessionByChallengeID = mem_LoadOAuth2ConsentSessionByChallengeID,
      SaveOAuth2ConsentSessionResponse = mem_SaveOAuth2ConsentSessionResponse\<rparr>"

section \<open>Example instances\<close>

text \<open>Concrete stores, databases and requests at which the theorems below are applied.\<close>

definition example_client :: Client where
  "example_client = \<lparr>client_ID = ''app1'', Policy = OneFactor\<rparr>"

definition example_store :: "memdb OpenIDConnectStore" where
  "example_store = \<lparr>provider = mem_provider, clients = [''app1'' \<mapsto> example_client]\<rparr>"

definition empty_db :: memdb where
  "empty_db = \<lparr>opaque_identifiers = [], blacklisted_jtis = [], sessions = [], consent_sessions = []\<rparr>"

text \<open>A stand-in for the digest: any function of the JTI serves the theorems.\<close>

definition example_Sum256 :: "string \<Rightarrow> string" where
  "example_Sum256 jti = ''sha256:'' @ jti"

definition jti_db :: memdb where
  "jti_db = empty_db\<lparr>blacklisted_jtis :=
     [\<lparr>jti_Signature = example_Sum256 ''jti-1'', ExpiresAt = 100\<rparr>]\<rparr>"

text \<open>A stand-in for \<open>ToRequest\<close>: the request content is the stored form.\<close>

definition example_ToRequest :: "OAuth2Session \<Rightarrow> unit \<Rightarrow> error + string" where
  "example_ToRequest row session = Inr (session_Form row)"

definition example_session :: "string \<Rightarrow> OAuth2Session" where
  "example_session signature =
     \<lparr>Signature = signature, RequestID = ''request-1'', session_ClientID = ''app1'',
      session_Subject = ''uuid-john'', session_Form = ''scope=openid'', Active = True,
      Revoked = False\<rparr>"

definition code_db :: memdb where
  "code_db = empty_db\<lparr>sessions := [(OAuth2SessionTypeAuthorizeCode, example_session ''code-1'')]\<rparr>"

definition pkce_db :: memdb where
  "pkce_db = empty_db\<lparr>sessions :=
     [(OAuth2SessionTypePKCEChallenge, example_session ''code-1''),
      (OAuth2SessionTypeOpenIDConnect, example_session ''code-1'')]\<rparr>"

definition example_NewUserOpaqueIdentifier ::
  "string \<Rightarrow> string \<Rightarrow> string \<Rightarrow> error + UserOpaqueIdentifier" where
  "example_NewUserOpaqueIdentifier service sectorID username =
     Inr \<lparr>Service = service, SectorID = sectorID, Username = username, Identifier = ''uuid-fresh''\<rparr>"

definition winner_row :: UserOpaqueIdentifier where
  "winner_row =
     \<lparr>Service = ''openid'', SectorID = ''sector'', Username = ''john'', Identifier = ''uuid-winner''\<rparr>"

text \<open>
  The in-memory provider in a race on the first resolution of a triple: another resolver
  commits its row \<open>winner\<close> after this caller's read and before this caller's
  write, so the write meets the uniqueness constraint.
\<close>

definition racing_provider :: "UserOpaqueIdentifier \<Rightarrow> memdb Provider" where
  "racing_provider winner =
     mem_provider\<lparr>SaveUserOpaqueIdentifier :=
       (\<lambda>db r. mem_SaveUserOpaqueIdentifier (fst (mem_SaveUserOpaqueIdentifier db winner)) r)\<rparr>"

definition racing_store :: "UserOpaqueIdentifier \<Rightarrow> memdb OpenIDConnectStore" where
  "racing_store winner = \<lparr>provider = racing_provider winner, clients = Map.empty\<rparr>"

text \<open>
  Stand-ins for the url package: the parsed form keeps the stored query string whole and
  \<open>Encode\<close> gives it back.
\<close>

definition example_env :: handlers_env where
  "example_env =
     \<lparr>messageOperationFailed = ''Operation failed.'',
      AuthorizationPath = ''/api/oidc/authorization'',
      GetForm = (\<lambda>consent. if Form consent = [] then Inl (ErrOther ''empty form'')
                           else Inr [(''query'', [Form consent])]),
      Encode = (\<lambda>form. concat (concat (map snd form)))\<rparr>"

definition example_consent :: OAuth2ConsentSession where
  "example_consent =
     \<lparr>ChallengeID = ''challenge-1'', ClientID = ''app1'', Subject = ''uuid-john'',
      RequestedScopes = [''openid'', ''profile''], RequestedAudience = [''api''],
      GrantedScopes = [], GrantedAudience = [], Authorized = Pending,
      Form = ''client_id=app1''\<rparr>"

definition consent_db :: memdb where
  "consent_db = empty_db\<lparr>consent_sessions := [example_consent]\<rparr>"

definition granted_consent :: OAuth2ConsentSession where
  "granted_consent =
     example_consent\<lparr>GrantedScopes := [''openid'', ''profile''],
                     GrantedAudience := [''api'', ''app1''], Authorized := Granted\<rparr>"

definition granted_db :: memdb where
  "granted_db = empty_db\<lparr>consent_sessions := [granted_consent]\<rparr>"

definition example_ctx :: "string \<Rightarrow> string \<Rightarrow> Level \<Rightarrow> memdb AutheliaCtx" where
  "example_ctx clientID verb level =
     \<lparr>RequestBody = Inr \<lparr>body_ClientID = clientID, AcceptOrReject = verb\<rparr>,
      GetSession = \<lparr>session_Username = ''john'', AuthenticationLevel = level,
                    ConsentChallengeID = Some ''challenge-1''\<rparr>,
      StorageProvider = mem_provider,
      Store = example_store,
      ExternalRootURL = Inr ''https://auth.example.com'',
      SetJSONBody = (\<lambda>body. None)\<rparr>"

text \<open>
  The in-memory provider with reads that wrap their error with context, as
  \<open>fmt.Errorf("...: %w", err)\<close> does.
\<close>

definition wrapping_provider :: "memdb Provider" where
  "wrapping_provider =
     mem_provider\<lparr>LoadOAuth2BlacklistedJTI :=
         (\<lambda>db signature.
            case mem_LoadOAuth2BlacklistedJTI db signature of
              Inl err \<Rightarrow> Inl (ErrWrap ''error selecting blacklisted jti'' err)
            | Inr r \<Rightarrow> Inr r),
       LoadOAuth2Session :=
         (\<lambda>db sessionType signature.
            case mem_LoadOAuth2Session db sessionType signature of
              Inl err \<Rightarrow> Inl (ErrWrap ''error selecting oauth2 session'' err)
            | Inr r \<Rightarrow> Inr r)\<rparr>"

definition wrapping_store :: "memdb OpenIDConnectStore" where
  "wrapping_store = \<lparr>provider = wrapping_provider, clients = [''app1'' \<mapsto> example_client]\<rparr>"

section \<open>Properties of the store\<close>

lemma mem_provider_simps [simp]:
  "LoadUserOpaqueIdentifierBySignature mem_provider = mem_LoadUserOpaqueIdentifierBySignature"
  "SaveUserOpaqueIdentifier mem_provider = mem_SaveUserOpaqueIdentifier"
  "LoadOAuth2BlacklistedJTI mem_provider = mem_LoadOAuth2BlacklistedJTI"
  "SaveOAuth2BlacklistedJTI mem_provider = mem_SaveOAuth2BlacklistedJTI"
  "LoadOAuth2Session mem_provider = mem_LoadOAuth2Session"
  "SaveOAuth2Session mem_provider = mem_SaveOAuth2Session"
  "RevokeOAuth2Session mem_provider = mem_RevokeOAuth2Session"
  "RevokeOAuth2SessionByRequestID mem_provider = mem_RevokeOAuth2SessionByRequestID"
  "DeactivateOAuth2Session mem_provider = mem_DeactivateOAuth2Session"
  "DeactivateOAuth2SessionByRequestID mem_provider = mem_DeactivateOAuth2SessionByRequestID"
  "LoadOAuth2ConsentSessionByChallengeID mem_provider = mem_LoadOAuth2ConsentSessionByChallengeID"
  "SaveOAuth2ConsentSessionResponse mem_provider = mem_SaveOAuth2ConsentSessionResponse"
  by (simp_all add: mem_provider_def)

lemma example_store_simps [simp]:
  "provider example_store = mem_provider"
  "clients example_store = [''app1'' \<mapsto> example_client]"
  by (simp_all add: example_store_def)

text \<open>
  Claim C9. For a client ID that the registry cannot resolve, \<open>GetClientPolicy\<close> returns
  the strictest level, two-factor; for a registered client it returns the policy level
  configured for that client.
\<close>

theorem GetClientPolicy_default:
  "(clients s cid = None \<longrightarrow> GetFullClient s cid = Inl ErrNotFound \<and> GetClientPolicy s cid = TwoFactor) \<and>
   (\<forall>client. clients s cid = Some client \<longrightarrow> GetClientPolicy s cid = Policy client)"
  by (simp add: GetClientPolicy_def GetFullClient_def)

text \<open>
  Claim C9 at a client ID that is not registered and at the registered client.
\<close>

theorem GetClientPolicy_default_witness:
  "clients example_store ''app2'' = None \<and> GetClientPolicy example_store ''app2'' = TwoFactor \<and>
   clients example_store ''app1'' = Some example_client \<and>
   GetClientPolicy example_store ''app1'' = OneFactor"
  using GetClientPolicy_default [of example_store "''app2''"]
    GetClientPolicy_default [of example_store "''app1''"]
  by (simp add: example_client_def)

text \<open>
  Claim C10. For every request ID and every signature,
  \<open>RevokeRefreshTokenMaybeGracePeriod\<close> does what \<open>RevokeRefreshToken\<close> does on the request
  ID: the signature is ignored and no grace period is applied, the refresh tokens of the
  request are deactivated by the one call to the provider.
\<close>

theorem RevokeRefreshTokenMaybeGracePeriod_ignores_signature:
  "RevokeRefreshTokenMaybeGracePeriod s db requestID signature = RevokeRefreshToken s db requestID \<and>
   RevokeRefreshTokenMaybeGracePeriod s db requestID signature =
     DeactivateOAuth2SessionByRequestID (provider s) db OAuth2SessionTypeRefreshToken requestID"
  by (simp add: RevokeRefreshTokenMaybeGracePeriod_def RevokeRefreshToken_def)

text \<open>
  The replay check on a read that reports bare \<open>sql.ErrNoRows\<close> or returns an entry.
  It reads the ledger at the digest of the JTI and at nothing else: its result is the
  same for any two databases that hold the same entry for the digest. On bare
  \<open>sql.ErrNoRows\<close> the check succeeds; on an entry it fails with \<open>ErrJTIKnown\<close> if
  and only if the entry's expiry is strictly after the current time, and succeeds
  otherwise.
\<close>

lemma ClientAssertionJWTValid_replay:
  "(LoadOAuth2BlacklistedJTI (provider s) db (Sum256 jti) = Inl ErrNoRows
      \<longrightarrow> ClientAssertionJWTValid Sum256 s db now jti = None) \<and>
   (\<forall>b. LoadOAuth2BlacklistedJTI (provider s) db (Sum256 jti) = Inr b
      \<longrightarrow> (ClientAssertionJWTValid Sum256 s db now jti = Some ErrJTIKnown \<longleftrightarrow> now < ExpiresAt b) \<and>
          (\<not> now < ExpiresAt b \<longrightarrow> ClientAssertionJWTValid Sum256 s db now jti = None)) \<and>
   (\<forall>s' db'. LoadOAuth2BlacklistedJTI (provider s') db' (Sum256 jti)
               = LoadOAuth2BlacklistedJTI (provider s) db (Sum256 jti)
      \<longrightarrow> ClientAssertionJWTValid Sum256 s' db' now jti
            = ClientAssertionJWTValid Sum256 s db now jti)"
  by (simp add: ClientAssertionJWTValid_def Let_def)

text \<open>
  At an entry that expires at time 100, checked at 99 and at 100, and at a JTI with no
  entry.
\<close>

lemma ClientAssertionJWTValid_replay_witness:
  "ClientAssertionJWTValid example_Sum256 example_store jti_db 99 ''jti-1'' = Some ErrJTIKnown \<and>
   ClientAssertionJWTValid example_Sum256 example_store jti_db 100 ''jti-1'' = None \<and>
   ClientAssertionJWTValid example_Sum256 example_store jti_db 99 ''jti-2'' = None"
proof -
  have a: "LoadOAuth2BlacklistedJTI (provider example_store) jti_db (example_Sum256 ''jti-1'')
             = Inr \<lparr>jti_Signature = example_Sum256 ''jti-1'', ExpiresAt = 100\<rparr>"
    by (simp add: mem_LoadOAuth2BlacklistedJTI_def jti_db_def empty_db_def example_Sum256_def)
  have b: "LoadOAuth2BlacklistedJTI (provider example_store) jti_db (example_Sum256 ''jti-2'')
             = Inl ErrNoRows"
    by (simp add: mem_LoadOAuth2BlacklistedJTI_def jti_db_def empty_db_def example_Sum256_def)
  note w1 = ClientAssertionJWTValid_replay
      [of example_store jti_db example_Sum256 "''jti-1''" 99, THEN conjunct2, THEN conjunct1,
       rule_format, OF a]
  note w2 = ClientAssertionJWTValid_replay
      [of example_store jti_db example_Sum256 "''jti-1''" 100, THEN conjunct2, THEN conjunct1,
       rule_format, OF a]
  note w3 = ClientAssertionJWTValid_replay
      [of example_store jti_db example_Sum256 "''jti-2''" 99, THEN conjunct1, rule_format, OF b]
  from w1 w2 w3 show ?thesis by simp
qed

text \<open>
  Claim C7 fails on the code for an absent entry that the provider reports as a wrapped
  \<open>sql.ErrNoRows\<close>. The check tests \<open>errors.Is(sql.ErrNoRows, err)\<close>, with the
  arguments reversed, which holds for the bare error only; on an empty ledger read
  through the wrapping provider the check returns the wrapped error and \<open>IsJWTUsed\<close>
  reports the JTI as used, where \<open>loadSessionBySignature\<close>, which tests
  \<open>errors.Is(err, sql.ErrNoRows)\<close>, reports the absent row as not found.
\<close>

theorem ClientAssertionJWTValid_wrapped_no_rows:
  "LoadOAuth2BlacklistedJTI (provider wrapping_store) empty_db (example_Sum256 ''jti-1'')
     = Inl (ErrWrap ''error selecting blacklisted jti'' ErrNoRows) \<and>
   errors_Is (Some (ErrWrap ''error selecting blacklisted jti'' ErrNoRows)) (Some ErrNoRows) \<and>
   errors_Is (Some ErrNoRows) (Some (ErrWrap ''error selecting blacklisted jti'' ErrNoRows)) = False \<and>
   ClientAssertionJWTValid example_Sum256 wrapping_store empty_db 99 ''jti-1''
     = Some (ErrWrap ''error selecting blacklisted jti'' ErrNoRows) \<and>
   IsJWTUsed example_Sum256 wrapping_store empty_db 99 ''jti-1''
     = (True, Some (ErrWrap ''error selecting blacklisted jti'' ErrNoRows)) \<and>
   loadSessionBySignature example_ToRequest wrapping_store empty_db
       OAuth2SessionTypeAccessToken ''signature-1'' ()
     = (None, Some ErrNotFound)"
  by (simp add: ClientAssertionJWTValid_def IsJWTUsed_def loadSessionBySignature_def
      wrapping_store_def wrapping_provider_def mem_LoadOAuth2BlacklistedJTI_def
      mem_LoadOAuth2Session_def empty_db_def)

text \<open>
  Claim C2. When the provider reports no row for the kind and signature (\<open>sql.ErrNoRows\<close>,
  bare or wrapped), \<open>loadSessionBySignature\<close> fails with \<open>ErrNotFound\<close>. When the row of an
  authorize code is stored but no longer active, and its content hydrates into the
  request \<open>r\<close>, \<open>GetAuthorizeCodeSession\<close> returns \<open>r\<close> together with
  \<open>ErrInvalidatedAuthorizeCode\<close>, not \<open>ErrNotFound\<close>.
\<close>

theorem loadSessionBySignature_not_found_or_invalidated:
  "(\<forall>err. LoadOAuth2Session (provider s) db sessionType signature = Inl err \<and>
          errors_Is (Some err) (Some ErrNoRows)
      \<longrightarrow> loadSessionBySignature ToRequest s db sessionType signature session
            = (None, Some ErrNotFound)) \<and>
   (\<forall>row r. LoadOAuth2Session (provider s) db OAuth2SessionTypeAuthorizeCode signature = Inr row \<and>
            \<not> Active row \<and> ToRequest row session = Inr r
      \<longrightarrow> GetAuthorizeCodeSession ToRequest s db signature session
            = (Some r, Some ErrInvalidatedAuthorizeCode))"
  by (simp add: loadSessionBySignature_def GetAuthorizeCodeSession_def)

text \<open>
  With the in-memory provider a deactivated row is read back with its content and a
  cleared active flag.
\<close>

lemma mem_deactivate_then_load:
  assumes "mem_LoadOAuth2Session db sessionType signature = Inr row"
  shows "mem_LoadOAuth2Session (fst (mem_DeactivateOAuth2Session db sessionType signature))
           sessionType signature = Inr (row\<lparr>Active := False\<rparr>)"
proof -
  let ?P = "\<lambda>row. session_key sessionType signature row \<and> \<not> Revoked (snd row)"
  let ?f = "\<lambda>row. if session_key sessionType signature row
                   then (fst row, (snd row)\<lparr>Active := False\<rparr>) else row"
  have m: "find ?P (map ?f rows) = map_option ?f (find ?P rows)" for rows
    by (induction rows) (auto simp: session_key_def)
  from assms obtain k where f: "find ?P (sessions db) = Some (k, row)"
    by (auto simp: mem_LoadOAuth2Session_def split: option.splits)
  then have "?P (k, row)"
    by (metis (mono_tags, lifting) find_Some_iff)
  with f m [of "sessions db"] show ?thesis
    by (simp add: mem_LoadOAuth2Session_def mem_DeactivateOAuth2Session_def)
qed

text \<open>
  Claim C2 at an authorize code that was never saved, at a saved one, and at the saved
  one after \<open>InvalidateAuthorizeCodeSession\<close>.
\<close>

theorem loadSessionBySignature_not_found_or_invalidated_witness:
  "GetAuthorizeCodeSession example_ToRequest example_store code_db ''code-2'' ()
     = (None, Some ErrNotFound) \<and>
   GetAuthorizeCodeSession example_ToRequest example_store code_db ''code-1'' ()
     = (Some ''scope=openid'', None) \<and>
   GetAuthorizeCodeSession example_ToRequest example_store
       (fst (InvalidateAuthorizeCodeSession example_store code_db ''code-1'')) ''code-1'' ()
     = (Some ''scope=openid'', Some ErrInvalidatedAuthorizeCode)"
proof -
  let ?db = "fst (InvalidateAuthorizeCodeSession example_store code_db ''code-1'')"
  have a: "LoadOAuth2Session (provider example_store) code_db OAuth2SessionTypeAuthorizeCode ''code-2''
             = Inl ErrNoRows \<and> errors_Is (Some ErrNoRows) (Some ErrNoRows)"
    by (simp add: mem_LoadOAuth2Session_def code_db_def empty_db_def session_key_def
        example_session_def)
  have b: "LoadOAuth2Session (provider example_store) ?db OAuth2SessionTypeAuthorizeCode ''code-1''
             = Inr ((example_session ''code-1'')\<lparr>Active := False\<rparr>) \<and>
           \<not> Active ((example_session ''code-1'')\<lparr>Active := False\<rparr>) \<and>
           example_ToRequest ((example_session ''code-1'')\<lparr>Active := False\<rparr>) ()
             = Inr ''scope=openid''"
    by (simp add: InvalidateAuthorizeCodeSession_def mem_LoadOAuth2Session_def
        mem_DeactivateOAuth2Session_def code_db_def empty_db_def session_key_def
        example_session_def example_ToRequest_def)
  have c: "GetAuthorizeCodeSession example_ToRequest example_store code_db ''code-1'' ()
     = (Some ''scope=openid'', None)"
    by (simp add: GetAuthorizeCodeSession_def loadSessionBySignature_def
        mem_LoadOAuth2Session_def code_db_def empty_db_def session_key_def
        example_session_def example_ToRequest_def)
  note w1 = loadSessionBySignature_not_found_or_invalidated
      [of example_store code_db OAuth2SessionTypeAuthorizeCode "''code-2''" example_ToRequest "()",
       THEN conjunct1, rule_format, OF a]
  note w2 = loadSessionBySignature_not_found_or_invalidated
      [of example_store ?db OAuth2SessionTypeAuthorizeCode "''code-1''" example_ToRequest "()",
       THEN conjunct2, rule_format, OF b]
  from w1 w2 c show ?thesis by (simp add: GetAuthorizeCodeSession_def)
qed

lemma racing_provider_simps [simp]:
  "LoadUserOpaqueIdentifierBySignature (racing_provider w) = mem_LoadUserOpaqueIdentifierBySignature"
  "SaveUserOpaqueIdentifier (racing_provider w) =
     (\<lambda>db r. mem_SaveUserOpaqueIdentifier (fst (mem_SaveUserOpaqueIdentifier db w)) r)"
  "provider (racing_store w) = racing_provider w"
  by (simp_all add: racing_provider_def racing_store_def)

text \<open>
  Claim C8 as stated fails. In the race, the first read finds no identifier and the save
  meets the uniqueness constraint; a second read would return the winner's row, but
  \<open>GenerateOpaqueUserID\<close> returns the error with its own unsaved identifier and
  \<open>GetSubject\<close> returns the error.
\<close>

theorem GenerateOpaqueUserID_conflict_counterexample:
  "LoadUserOpaqueIdentifierBySignature (provider (racing_store winner_row)) empty_db
       ''openid'' ''sector'' ''john'' = (None, None) \<and>
   SaveUserOpaqueIdentifier (provider (racing_store winner_row)) empty_db
       \<lparr>Service = ''openid'', SectorID = ''sector'', Username = ''john'', Identifier = ''uuid-fresh''\<rparr>
     = (empty_db\<lparr>opaque_identifiers := [winner_row]\<rparr>, Some (ErrOther ''UNIQUE constraint failed'')) \<and>
   LoadUserOpaqueIdentifierBySignature (provider (racing_store winner_row))
       (empty_db\<lparr>opaque_identifiers := [winner_row]\<rparr>) ''openid'' ''sector'' ''john''
     = (Some winner_row, None) \<and>
   GenerateOpaqueUserID example_NewUserOpaqueIdentifier (racing_store winner_row) empty_db
       ''sector'' ''john''
     = ((Some \<lparr>Service = ''openid'', SectorID = ''sector'', Username = ''john'',
               Identifier = ''uuid-fresh''\<rparr>,
         Some (ErrOther ''UNIQUE constraint failed'')),
        empty_db\<lparr>opaque_identifiers := [winner_row]\<rparr>) \<and>
   GetSubject example_NewUserOpaqueIdentifier (racing_store winner_row) empty_db ''sector'' ''john''
     = (Inl (ErrOther ''UNIQUE constraint failed''), empty_db\<lparr>opaque_identifiers := [winner_row]\<rparr>)"
  by (simp add: GetSubject_def GenerateOpaqueUserID_def example_NewUserOpaqueIdentifier_def
      mem_LoadUserOpaqueIdentifierBySignature_def mem_SaveUserOpaqueIdentifier_def
      empty_db_def winner_row_def same_triple_def)

text \<open>
  Claim C8, amended. When the first lookup finds no stored identifier and the save of the
  newly generated one fails, with the uniqueness conflict or any other error, subject
  resolution does not read again: \<open>GenerateOpaqueUserID\<close> returns the save's error
  together with the unsaved identifier, and \<open>GetSubject\<close> returns that error.
\<close>

theorem GenerateOpaqueUserID_save_error:
  assumes "LoadUserOpaqueIdentifierBySignature (provider s) db ''openid'' sectorID username
             = (None, None)"
    and "NewUserOpaqueIdentifier ''openid'' sectorID username = Inr opaqueID"
    and "SaveUserOpaqueIdentifier (provider s) db opaqueID = (db', Some err)"
  shows "GenerateOpaqueUserID NewUserOpaqueIdentifier s db sectorID username
           = ((Some opaqueID, Some err), db') \<and>
         GetSubject NewUserOpaqueIdentifier s db sectorID username = (Inl err, db')"
  using assms by (simp add: GetSubject_def GenerateOpaqueUserID_def)

text \<open>
  Claim C8, amended, at the race.
\<close>

theorem GenerateOpaqueUserID_save_error_witness:
  "GetSubject example_NewUserOpaqueIdentifier (racing_store winner_row) empty_db ''sector'' ''john''
     = (Inl (ErrOther ''UNIQUE constraint failed''), empty_db\<lparr>opaque_identifiers := [winner_row]\<rparr>)"
proof -
  have a: "LoadUserOpaqueIdentifierBySignature (provider (racing_store winner_row)) empty_db
             ''openid'' ''sector'' ''john'' = (None, None)"
    by (simp add: mem_LoadUserOpaqueIdentifierBySignature_def empty_db_def)
  have b: "example_NewUserOpaqueIdentifier ''openid'' ''sector'' ''john''
             = Inr \<lparr>Service = ''openid'', SectorID = ''sector'', Username = ''john'',
                    Identifier = ''uuid-fresh''\<rparr>"
    by (simp add: example_NewUserOpaqueIdentifier_def)
  have c: "SaveUserOpaqueIdentifier (provider (racing_store winner_row)) empty_db
             \<lparr>Service = ''openid'', SectorID = ''sector'', Username = ''john'',
              Identifier = ''uuid-fresh''\<rparr>
           = (empty_db\<lparr>opaque_identifiers := [winner_row]\<rparr>,
              Some (ErrOther ''UNIQUE constraint failed''))"
    by (simp add: mem_SaveUserOpaqueIdentifier_def empty_db_def winner_row_def same_triple_def)
  from GenerateOpaqueUserID_save_error
      [where NewUserOpaqueIdentifier = example_NewUserOpaqueIdentifier, OF a b c]
  show ?thesis by simp
qed

text \<open>
  Claim C4 fails on the code. \<open>DeletePKCERequestSession\<close> and
  \<open>DeleteOpenIDConnectSession\<close> revoke by signature in the access-token kind, as
  \<open>DeleteAccessTokenSession\<close> does. On a database holding the PKCE and OpenID Connect
  rows of an authorize code, both calls leave the database as it was, and the rows are
  still read back active.
\<close>

theorem DeletePKCERequestSession_revokes_access_token_kind:
  "DeletePKCERequestSession s db signature = DeleteAccessTokenSession s db signature \<and>
   DeleteOpenIDConnectSession s db signature = DeleteAccessTokenSession s db signature \<and>
   fst (DeletePKCERequestSession example_store pkce_db ''code-1'') = pkce_db \<and>
   fst (DeleteOpenIDConnectSession example_store pkce_db ''code-1'') = pkce_db \<and>
   GetPKCERequestSession example_ToRequest example_store
       (fst (DeletePKCERequestSession example_store pkce_db ''code-1'')) ''code-1'' ()
     = (Some ''scope=openid'', None) \<and>
   LoadOAuth2Session (provider example_store)
       (fst (DeletePKCERequestSession example_store pkce_db ''code-1''))
       OAuth2SessionTypePKCEChallenge ''code-1''
     = Inr (example_session ''code-1'') \<and>
   LoadOAuth2Session (provider example_store)
       (fst (DeleteOpenIDConnectSession example_store pkce_db ''code-1''))
       OAuth2SessionTypeOpenIDConnect ''code-1''
     = Inr (example_session ''code-1'') \<and>
   Active (example_session ''code-1'') \<and> \<not> Revoked (example_session ''code-1'')"
  by (simp add: DeletePKCERequestSession_def DeleteOpenIDConnectSession_def
      DeleteAccessTokenSession_def revokeSessionBySignature_def GetPKCERequestSession_def
      loadSessionBySignature_def mem_RevokeOAuth2Session_def mem_LoadOAuth2Session_def
      pkce_db_def empty_db_def session_key_def example_session_def example_ToRequest_def)

section \<open>Properties of the consent handlers\<close>

lemma IsStringInSlice_set: "IsStringInSlice needle haystack \<longleftrightarrow> needle \<in> set haystack"
  by (induction haystack) auto

lemma oidcConsentGetSessionsAndClient_found:
  assumes "ConsentChallengeID (GetSession ctx) = Some challengeID"
    and "LoadOAuth2ConsentSessionByChallengeID (StorageProvider ctx) db challengeID = Inr consent"
    and "GetFullClient (Store ctx) (ClientID consent) = Inr client"
  shows "oidcConsentGetSessionsAndClient ctx db = Inr (GetSession ctx, consent, client)"
  using assms by (simp add: oidcConsentGetSessionsAndClient_def)

lemma oidcConsentPOST_after_checks:
  assumes "RequestBody ctx = Inr body"
    and "ConsentChallengeID (GetSession ctx) = Some challengeID"
    and "LoadOAuth2ConsentSessionByChallengeID (StorageProvider ctx) db challengeID = Inr consent"
    and "GetFullClient (Store ctx) (ClientID consent) = Inr client"
    and "IsAuthenticationLevelSufficient client (AuthenticationLevel (GetSession ctx))"
    and "body_ClientID body = ClientID consent"
    and "GetForm env consent = Inr form"
  shows "oidcConsentPOST env ctx db =
     (if AcceptOrReject body = accept then
        (case ExternalRootURL ctx of
           Inl err \<Rightarrow> (JSONError (messageOperationFailed env), Some consent, db)
         | Inr externalRootURL \<Rightarrow>
             oidcConsentPOST_save env ctx db
               (consent\<lparr>GrantedScopes := RequestedScopes consent,
                        GrantedAudience :=
                          (if ClientID consent \<in> set (RequestedAudience consent)
                           then RequestedAudience consent
                           else RequestedAudience consent @ [ClientID consent])\<rparr>)
               True externalRootURL form)
      else if AcceptOrReject body = reject then oidcConsentPOST_save env ctx db consent False [] form
      else (ReplyBadRequest, Some consent, db))"
  using assms oidcConsentGetSessionsAndClient_found [OF assms(2,3,4)]
  by (auto simp: oidcConsentPOST_def Let_def IsStringInSlice_set split: sum.splits)

lemma example_ctx_simps [simp]:
  "RequestBody (example_ctx clientID verb level)
     = Inr \<lparr>body_ClientID = clientID, AcceptOrReject = verb\<rparr>"
  "ConsentChallengeID (GetSession (example_ctx clientID verb level)) = Some ''challenge-1''"
  "AuthenticationLevel (GetSession (example_ctx clientID verb level)) = level"
  "StorageProvider (example_ctx clientID verb level) = mem_provider"
  "Store (example_ctx clientID verb level) = example_store"
  "ExternalRootURL (example_ctx clientID verb level) = Inr ''https://auth.example.com''"
  "SetJSONBody (example_ctx clientID verb level) = (\<lambda>body. None)"
  by (simp_all add: example_ctx_def)

lemma example_env_simps [simp]:
  "messageOperationFailed example_env = ''Operation failed.''"
  "AuthorizationPath example_env = ''/api/oidc/authorization''"
  "GetForm example_env example_consent = Inr [(''query'', [''client_id=app1''])]"
  "GetForm example_env granted_consent = Inr [(''query'', [''client_id=app1''])]"
  "Encode example_env [(''query'', [''client_id=app1''])] = ''client_id=app1''"
  by (simp_all add: example_env_def example_consent_def granted_consent_def)

lemma example_load_simps [simp]:
  "mem_LoadOAuth2ConsentSessionByChallengeID consent_db ''challenge-1'' = Inr example_consent"
  "mem_LoadOAuth2ConsentSessionByChallengeID granted_db ''challenge-1'' = Inr granted_consent"
  "GetFullClient example_store ''app1'' = Inr example_client"
  "ClientID example_consent = ''app1''"
  "ClientID granted_consent = ''app1''"
  by (simp_all add: mem_LoadOAuth2ConsentSessionByChallengeID_def consent_db_def granted_db_def
      empty_db_def example_consent_def granted_consent_def GetFullClient_def)

lemma example_level_simps [simp]:
  "IsAuthenticationLevelSufficient example_client OneFactor"
  "\<not> IsAuthenticationLevelSufficient example_client Bypass"
  by (simp_all add: IsAuthenticationLevelSufficient_def example_client_def)

lemma example_consent_simps [simp]:
  "RequestedScopes example_consent = [''openid'', ''profile'']"
  "RequestedAudience example_consent = [''api'']"
  "Authorized granted_consent = Granted"
  by (simp_all add: example_consent_def granted_consent_def)

lemma example_save_simps [simp]:
  "mem_SaveOAuth2ConsentSessionResponse granted_db granted_consent False
     = (empty_db\<lparr>consent_sessions := [granted_consent\<lparr>Authorized := Denied\<rparr>]\<rparr>, None)"
  "mem_SaveOAuth2ConsentSessionResponse consent_db example_consent False
     = (empty_db\<lparr>consent_sessions := [example_consent\<lparr>Authorized := Denied\<rparr>]\<rparr>, None)"
  "mem_SaveOAuth2ConsentSessionResponse consent_db
       (example_consent\<lparr>GrantedScopes := [''openid'', ''profile''],
                        GrantedAudience := [''api'', ''app1'']\<rparr>) True
     = (granted_db, None)"
  by (simp_all add: mem_SaveOAuth2ConsentSessionResponse_def granted_db_def consent_db_def
      empty_db_def granted_consent_def example_consent_def)

text \<open>
  Claim C1. When a decide call with the accept verb passes the handler's checks and the
  external root URL is known, the consent session handed to the consent-response save
  has its granted scopes equal to the requested scopes and its granted audience equal to
  the requested audience, followed by the session's own client ID when that is not
  already in it; nothing else of the session is changed, and the database after the call
  is the one this save returned.
\<close>

theorem oidcConsentPOST_accept_grants:
  assumes "RequestBody ctx = Inr body"
    and "ConsentChallengeID (GetSession ctx) = Some challengeID"
    and "LoadOAuth2ConsentSessionByChallengeID (StorageProvider ctx) db challengeID = Inr consent"
    and "GetFullClient (Store ctx) (ClientID consent) = Inr client"
    and "IsAuthenticationLevelSufficient client (AuthenticationLevel (GetSession ctx))"
    and "body_ClientID body = ClientID consent"
    and "GetForm env consent = Inr form"
    and "AcceptOrReject body = accept"
    and "ExternalRootURL ctx = Inr externalRootURL"
  shows "\<exists>granted.
           fst (snd (oidcConsentPOST env ctx db)) = Some granted \<and>
           snd (snd (oidcConsentPOST env ctx db))
             = fst (SaveOAuth2ConsentSessionResponse (StorageProvider ctx) db granted True) \<and>
           GrantedScopes granted = RequestedScopes consent \<and>
           GrantedAudience granted =
             (if ClientID consent \<in> set (RequestedAudience consent)
              then RequestedAudience consent
              else RequestedAudience consent @ [ClientID consent]) \<and>
           granted\<lparr>GrantedScopes := GrantedScopes consent,
                   GrantedAudience := GrantedAudience consent\<rparr> = consent"
  using assms(8,9) oidcConsentPOST_after_checks [OF assms(1-7)]
  by (simp add: oidcConsentPOST_save_def Let_def split: prod.splits option.splits)

text \<open>
  Claim C1 at the requested scopes openid and profile and the audience api for the client
  app1: the granted audience is api, app1, and the stored row holds the granted decision.
\<close>

theorem oidcConsentPOST_accept_grants_witness:
  "fst (snd (oidcConsentPOST example_env (example_ctx ''app1'' accept OneFactor) consent_db))
     = Some (example_consent\<lparr>GrantedScopes := [''openid'', ''profile''],
                             GrantedAudience := [''api'', ''app1'']\<rparr>) \<and>
   snd (snd (oidcConsentPOST example_env (example_ctx ''app1'' accept OneFactor) consent_db))
     = granted_db"
proof -
  let ?ctx = "example_ctx ''app1'' accept OneFactor"
  have "RequestBody ?ctx = Inr \<lparr>body_ClientID = ''app1'', AcceptOrReject = accept\<rparr>"
    and "ConsentChallengeID (GetSession ?ctx) = Some ''challenge-1''"
    and "LoadOAuth2ConsentSessionByChallengeID (StorageProvider ?ctx) consent_db ''challenge-1''
           = Inr example_consent"
    and "GetFullClient (Store ?ctx) (ClientID example_consent) = Inr example_client"
    and "IsAuthenticationLevelSufficient example_client (AuthenticationLevel (GetSession ?ctx))"
    and "body_ClientID \<lparr>body_ClientID = ''app1'', AcceptOrReject = accept\<rparr> = ClientID example_consent"
    and "GetForm example_env example_consent = Inr [(''query'', [''client_id=app1''])]"
    and "AcceptOrReject \<lparr>body_ClientID = ''app1'', AcceptOrReject = accept\<rparr> = accept"
    and "ExternalRootURL ?ctx = Inr ''https://auth.example.com''"
    by simp_all
  from oidcConsentPOST_accept_grants [OF this]
  obtain granted where
    g: "fst (snd (oidcConsentPOST example_env ?ctx consent_db)) = Some granted"
      "snd (snd (oidcConsentPOST example_env ?ctx consent_db))
         = fst (SaveOAuth2ConsentSessionResponse (StorageProvider ?ctx) consent_db granted True)"
      "GrantedScopes granted = RequestedScopes example_consent"
      "GrantedAudience granted =
             (if ClientID example_consent \<in> set (RequestedAudience example_consent)
              then RequestedAudience example_consent
              else RequestedAudience example_consent @ [ClientID example_consent])"
      "granted\<lparr>GrantedScopes := GrantedScopes example_consent,
                   GrantedAudience := GrantedAudience example_consent\<rparr> = example_consent"
    by blast
  have "granted = granted\<lparr>GrantedScopes := GrantedScopes granted,
                   GrantedAudience := GrantedAudience granted\<rparr>"
    by simp
  also have "\<dots> = (granted\<lparr>GrantedScopes := GrantedScopes example_consent,
                   GrantedAudience := GrantedAudience example_consent\<rparr>)
                \<lparr>GrantedScopes := GrantedScopes granted,
                   GrantedAudience := GrantedAudience granted\<rparr>"
    by simp
  also have "\<dots> = example_consent\<lparr>GrantedScopes := [''openid'', ''profile''],
                             GrantedAudience := [''api'', ''app1'']\<rparr>"
    unfolding g(5) g(3) g(4) by (simp add: example_consent_def)
  finally have e: "granted = example_consent\<lparr>GrantedScopes := [''openid'', ''profile''],
                             GrantedAudience := [''api'', ''app1'']\<rparr>" .
  show ?thesis
    using g(1,2) unfolding e
    by (simp add: mem_SaveOAuth2ConsentSessionResponse_def consent_db_def granted_db_def
        granted_consent_def empty_db_def example_consent_def)
qed

text \<open>
  Claim C3 as stated fails. A consent session that is already granted is decided again
  with the reject verb: the call succeeds with a redirect, and the stored decision
  becomes denied.
\<close>

theorem oidcConsentPOST_terminal_counterexample:
  "LoadOAuth2ConsentSessionByChallengeID mem_provider granted_db ''challenge-1''
     = Inr granted_consent \<and>
   Authorized granted_consent = Granted \<and>
   oidcConsentPOST example_env (example_ctx ''app1'' reject OneFactor) granted_db
     = (ConsentPostResponseBody ''/api/oidc/authorization?client_id=app1'', Some granted_consent,
        empty_db\<lparr>consent_sessions := [granted_consent\<lparr>Authorized := Denied\<rparr>]\<rparr>)"
  by (simp add: oidcConsentPOST_def oidcConsentGetSessionsAndClient_def oidcConsentPOST_save_def
      Let_def accept_def reject_def)

text \<open>
  Claim C3, amended. A consent session already in a terminal state is decided like a
  pending one. When the call passes the handler's checks (for accept, with the external
  root URL known), and the provider's consent-response save and the writing of the
  response succeed, the handler answers with a redirect, and the database is the one the
  save returned for the new decision. No failure for an already decided session exists.
\<close>

theorem oidcConsentPOST_terminal_overwrites:
  assumes "RequestBody ctx = Inr body"
    and "ConsentChallengeID (GetSession ctx) = Some challengeID"
    and "LoadOAuth2ConsentSessionByChallengeID (StorageProvider ctx) db challengeID = Inr consent"
    and "GetFullClient (Store ctx) (ClientID consent) = Inr client"
    and "IsAuthenticationLevelSufficient client (AuthenticationLevel (GetSession ctx))"
    and "body_ClientID body = ClientID consent"
    and "GetForm env consent = Inr form"
    and "Authorized consent = Granted \<or> Authorized consent = Denied"
    and "AcceptOrReject body = reject \<or>
         AcceptOrReject body = accept \<and> (\<exists>externalRootURL. ExternalRootURL ctx = Inr externalRootURL)"
    and "\<forall>decided authorized.
           snd (SaveOAuth2ConsentSessionResponse (StorageProvider ctx) db decided authorized) = None"
    and "\<forall>redirectURI. SetJSONBody ctx redirectURI = None"
  shows "\<exists>redirectURI decided.
           oidcConsentPOST env ctx db =
             (ConsentPostResponseBody redirectURI, Some decided,
              fst (SaveOAuth2ConsentSessionResponse (StorageProvider ctx) db decided
                     (AcceptOrReject body = accept)))"
proof -
  note post = oidcConsentPOST_after_checks [OF assms(1-7)]
  have saved: "oidcConsentPOST_save env ctx db decided authorized externalRootURL form =
      (ConsentPostResponseBody (externalRootURL @ AuthorizationPath env @ ''?'' @ Encode env form),
       Some decided,
       fst (SaveOAuth2ConsentSessionResponse (StorageProvider ctx) db decided authorized))"
    for decided authorized externalRootURL
  proof -
    obtain db' err where
      sv: "SaveOAuth2ConsentSessionResponse (StorageProvider ctx) db decided authorized = (db', err)"
      by (cases "SaveOAuth2ConsentSessionResponse (StorageProvider ctx) db decided authorized")
    with assms(10) have "err = None"
      by (metis snd_conv)
    with sv assms(11) show ?thesis
      by (simp add: oidcConsentPOST_save_def Let_def)
  qed
  from assms(9) show ?thesis
  proof
    assume r: "AcceptOrReject body = reject"
    then have "AcceptOrReject body \<noteq> accept"
      by (simp add: accept_def reject_def)
    with r post saved show ?thesis
      by simp
  next
    assume "AcceptOrReject body = accept \<and> (\<exists>externalRootURL. ExternalRootURL ctx = Inr externalRootURL)"
    then obtain externalRootURL where "AcceptOrReject body = accept"
      and "ExternalRootURL ctx = Inr externalRootURL"
      by blast
    with post saved show ?thesis
      by simp
  qed
qed

text \<open>
  Claim C3, amended, at the granted session decided again with the reject verb and with
  the accept verb.
\<close>

theorem oidcConsentPOST_terminal_overwrites_witness:
  "(\<exists>redirectURI decided.
      oidcConsentPOST example_env (example_ctx ''app1'' reject OneFactor) granted_db
        = (ConsentPostResponseBody redirectURI, Some decided,
           fst (mem_SaveOAuth2ConsentSessionResponse granted_db decided False))) \<and>
   (\<exists>redirectURI decided.
      oidcConsentPOST example_env (example_ctx ''app1'' accept OneFactor) granted_db
        = (ConsentPostResponseBody redirectURI, Some decided,
           fst (mem_SaveOAuth2ConsentSessionResponse granted_db decided True)))"
proof -
  have h: "RequestBody (example_ctx ''app1'' verb OneFactor)
             = Inr \<lparr>body_ClientID = ''app1'', AcceptOrReject = verb\<rparr>"
    "ConsentChallengeID (GetSession (example_ctx ''app1'' verb OneFactor)) = Some ''challenge-1''"
    "LoadOAuth2ConsentSessionByChallengeID (StorageProvider (example_ctx ''app1'' verb OneFactor))
       granted_db ''challenge-1'' = Inr granted_consent"
    "GetFullClient (Store (example_ctx ''app1'' verb OneFactor)) (ClientID granted_consent)
       = Inr example_client"
    "IsAuthenticationLevelSufficient example_client
       (AuthenticationLevel (GetSession (example_ctx ''app1'' verb OneFactor)))"
    "body_ClientID \<lparr>body_ClientID = ''app1'', AcceptOrReject = verb\<rparr> = ClientID granted_consent"
    "GetForm example_env granted_consent = Inr [(''query'', [''client_id=app1''])]"
    "Authorized granted_consent = Granted \<or> Authorized granted_consent = Denied"
    for verb
    by simp_all
  have v: "AcceptOrReject \<lparr>body_ClientID = ''app1'', AcceptOrReject = reject\<rparr> = reject \<or>
        AcceptOrReject \<lparr>body_ClientID = ''app1'', AcceptOrReject = reject\<rparr> = accept \<and>
        (\<exists>externalRootURL. ExternalRootURL (example_ctx ''app1'' reject OneFactor) = Inr externalRootURL)"
    "AcceptOrReject \<lparr>body_ClientID = ''app1'', AcceptOrReject = accept\<rparr> = reject \<or>
        AcceptOrReject \<lparr>body_ClientID = ''app1'', AcceptOrReject = accept\<rparr> = accept \<and>
        (\<exists>externalRootURL. ExternalRootURL (example_ctx ''app1'' accept OneFactor) = Inr externalRootURL)"
    by simp_all
  have s: "\<forall>decided authorized.
      snd (SaveOAuth2ConsentSessionResponse (StorageProvider (example_ctx ''app1'' verb OneFactor))
             granted_db decided authorized) = None"
    "\<forall>redirectURI. SetJSONBody (example_ctx ''app1'' verb OneFactor) redirectURI = None"
    for verb
    by (simp_all add: mem_SaveOAuth2ConsentSessionResponse_def)
  from oidcConsentPOST_terminal_overwrites [OF h v(1) s]
    oidcConsentPOST_terminal_overwrites [OF h v(2) s]
  show ?thesis
    by (simp add: accept_def reject_def)
qed

text \<open>
  Claim C5. When the client ID of the request body differs from the client ID of the
  loaded consent session, the call fails: the response is the refusal or the generic
  failure message, never a redirect; the database is unchanged, so nothing was saved; and
  the consent session the handler holds is the loaded one, unchanged. When the session's
  client resolves and the authentication level suffices, the response is the generic
  failure message.
\<close>

theorem oidcConsentPOST_client_mismatch:
  assumes "RequestBody ctx = Inr body"
    and "ConsentChallengeID (GetSession ctx) = Some challengeID"
    and "LoadOAuth2ConsentSessionByChallengeID (StorageProvider ctx) db challengeID = Inr consent"
    and "body_ClientID body \<noteq> ClientID consent"
  shows "snd (snd (oidcConsentPOST env ctx db)) = db \<and>
         fst (snd (oidcConsentPOST env ctx db)) \<in> {None, Some consent} \<and>
         fst (oidcConsentPOST env ctx db) \<in> {ReplyForbidden, JSONError (messageOperationFailed env)} \<and>
         (\<forall>client. GetFullClient (Store ctx) (ClientID consent) = Inr client \<and>
                   IsAuthenticationLevelSufficient client (AuthenticationLevel (GetSession ctx))
            \<longrightarrow> oidcConsentPOST env ctx db
                  = (JSONError (messageOperationFailed env), Some consent, db))"
  using assms
  by (auto simp: oidcConsentPOST_def oidcConsentGetSessionsAndClient_def Let_def
      split: sum.splits)

text \<open>
  Claim C5 at the body client ID app2 against the session of app1, at a sufficient level
  for both verbs and at an insufficient level.
\<close>

theorem oidcConsentPOST_client_mismatch_witness:
  "oidcConsentPOST example_env (example_ctx ''app2'' accept OneFactor) consent_db
     = (JSONError ''Operation failed.'', Some example_consent, consent_db) \<and>
   oidcConsentPOST example_env (example_ctx ''app2'' reject OneFactor) consent_db
     = (JSONError ''Operation failed.'', Some example_consent, consent_db) \<and>
   snd (snd (oidcConsentPOST example_env (example_ctx ''app2'' accept Bypass) consent_db))
     = consent_db"
proof -
  have h: "RequestBody (example_ctx ''app2'' verb level)
             = Inr \<lparr>body_ClientID = ''app2'', AcceptOrReject = verb\<rparr>"
    "ConsentChallengeID (GetSession (example_ctx ''app2'' verb level)) = Some ''challenge-1''"
    "LoadOAuth2ConsentSessionByChallengeID (StorageProvider (example_ctx ''app2'' verb level))
       consent_db ''challenge-1'' = Inr example_consent"
    "body_ClientID \<lparr>body_ClientID = ''app2'', AcceptOrReject = verb\<rparr> \<noteq> ClientID example_consent"
    for verb level
    by simp_all
  have c: "GetFullClient (Store (example_ctx ''app2'' verb OneFactor)) (ClientID example_consent)
             = Inr example_client \<and>
           IsAuthenticationLevelSufficient example_client
             (AuthenticationLevel (GetSession (example_ctx ''app2'' verb OneFactor)))" for verb
    by simp
  note t = oidcConsentPOST_client_mismatch [OF h, of example_env]
  note w1 = t [of accept OneFactor, THEN conjunct2, THEN conjunct2, THEN conjunct2, rule_format, OF c]
  note w2 = t [of reject OneFactor, THEN conjunct2, THEN conjunct2, THEN conjunct2, rule_format, OF c]
  note w3 = t [of accept Bypass, THEN conjunct1]
  from w1 w2 w3 show ?thesis by simp
qed

text \<open>
  Claim C6 fails on the code for the reject verb. With the external root URL
  \<open>https://auth.example.com\<close>, a successful reject answers with the redirect
  \<open>/api/oidc/authorization?client_id=app1\<close>, which lacks the root URL; the accept
  on the same session answers with the root URL in front.
\<close>

theorem oidcConsentPOST_reject_redirect_without_root:
  "ExternalRootURL (example_ctx ''app1'' reject OneFactor) = Inr ''https://auth.example.com'' \<and>
   fst (oidcConsentPOST example_env (example_ctx ''app1'' reject OneFactor) consent_db)
     = ConsentPostResponseBody ''/api/oidc/authorization?client_id=app1'' \<and>
   fst (oidcConsentPOST example_env (example_ctx ''app1'' accept OneFactor) consent_db)
     = ConsentPostResponseBody ''https://auth.example.com/api/oidc/authorization?client_id=app1''"
  by (simp add: oidcConsentPOST_def oidcConsentGetSessionsAndClient_def oidcConsentPOST_save_def
      Let_def accept_def reject_def)

end
